theory Spec2Isabelle
  imports Main
begin

section \<open>The scripting bootstrap of \<^verbatim>\<open>pyramid/scripting.py\<close>\<close>

text \<open>
  The module is glue over collaborators of the framework: the component registry, the
  request type, the thread-local request context, the root factories. The functions of
  the module itself (\<^verbatim>\<open>get_root\<close>, \<^verbatim>\<open>prepare\<close>, the two closers, \<^verbatim>\<open>AppEnvironment\<close>,
  \<^verbatim>\<open>_make_request\<close>) are embedded line by line. Python objects that the module mutates
  and shares (the request is held by the caller, by the frame on the thread-local stack,
  by the closer and by the returned bundle) live in an explicit store, and every function
  passes the state of the process along. An exception is a value: a function returns
  an \<open>error + 'a\<close> together with the state reached when it stopped.
\<close>

subsection \<open>Python values\<close>

text \<open>
  An attribute of an object is absent (\<open>Missing\<close>) or present with a value. A value that
  may be Python's \<^verbatim>\<open>None\<close> has an option type, \<open>None\<close> standing for \<^verbatim>\<open>None\<close>: so
  \<open>Attr None\<close> is an attribute that exists and holds \<^verbatim>\<open>None\<close>.
\<close>

datatype 'a attr = Missing | Attr 'a

text \<open>\<^verbatim>\<open>getattr(obj, name, default)\<close>, given the attribute slot of the object.\<close>

definition getattr :: "'a attr \<Rightarrow> 'a \<Rightarrow> 'a" where
  "getattr a dflt = (case a of Missing \<Rightarrow> dflt | Attr v \<Rightarrow> v)"

datatype error =
    ConfigurationError string
  | AttributeError string
  | KeyError string
  | TypeError string
  | CallbackError nat

subsection \<open>The collaborators' data\<close>

text \<open>
  Factories are callables owned by the framework or the application; the module only
  looks them up and calls them. \<open>Request\<close> and \<open>DefaultRootFactory\<close> are the two defaults
  the module imports, the other constructor stands for a factory the application
  registered.
\<close>

datatype request_factory = Request | RequestFactory nat

datatype root_factory = DefaultRootFactory | RootFactory nat

text \<open>
  A resource is what a root factory returns for a request (\<open>RootOf\<close>), or any other
  object a caller may have stored as a request's context.
\<close>

datatype resource = RootOf root_factory nat | Resource nat

text \<open>
  A finished callback is code of the application, called with the request: it returns,
  or it raises an exception of its own (\<open>CallbackError\<close>).
\<close>

datatype callback = Callback nat | FailingCallback nat

text \<open>
  The component registry: the utilities the module asks for, each registered or not.
\<close>

record registry =
  package_name :: string
  IRequestFactory :: "request_factory option"
  IRootFactory :: "root_factory option"
  IRequestExtensions :: "string list"

text \<open>
  Modelled from the spec: \<^verbatim>\<open>registry.queryUtility(interface, default=...)\<close> is not in
  the source file; the spec describes "a component registry supporting lookup of a
  request-factory utility and a root-factory utility with defaults".
\<close>

definition queryUtility :: "registry \<Rightarrow> (registry \<Rightarrow> 'u option) \<Rightarrow> 'u \<Rightarrow> 'u" where
  "queryUtility reg interface dflt =
     (case interface reg of None \<Rightarrow> dflt | Some u \<Rightarrow> u)"

text \<open>
  A request object. \<open>req_registry\<close> and \<open>req_context\<close> are the attributes \<^verbatim>\<open>registry\<close>
  and \<^verbatim>\<open>context\<close>, which the module reads with \<^verbatim>\<open>getattr\<close> and a default, so each may
  be absent. A caller may supply any object as the request, so the attribute
  \<^verbatim>\<open>finished_callbacks\<close>, which the closer reads without a default, may be absent too.
\<close>

record request =
  req_factory :: request_factory
  req_path :: string
  req_registry :: "registry option attr"
  req_context :: "resource option attr"
  finished_callbacks :: "callback list attr"
  req_extensions :: "string list"

text \<open>
  A frame of the thread-local stack: the current request (a reference into the store)
  and the current registry.
\<close>

record frame =
  frame_request :: nat
  frame_registry :: "registry option"

text \<open>What the collaborators were asked to do, in the order it happened.\<close>

datatype event =
    Begin frame
  | End frame
  | ProcessFinishedCallbacks nat
  | Called callback nat

text \<open>
  The state of the process: the store of request objects (a reference is an index),
  the thread-local stack (top first), \<^verbatim>\<open>global_registries.last\<close>, and the trace of events.
\<close>

record world =
  heap :: "request list"
  manager :: "frame list"
  global_registries_last :: "registry option"
  trace :: "event list"

text \<open>
  A reference that a caller holds denotes an allocated object: Python has no dangling
  reference.
\<close>

definition valid_ref :: "world \<Rightarrow> nat \<Rightarrow> bool" where
  "valid_ref w r = (r < length (heap w))"

definition valid_request :: "world \<Rightarrow> nat option \<Rightarrow> bool" where
  "valid_request w request = (case request of None \<Rightarrow> True | Some r \<Rightarrow> valid_ref w r)"

text \<open>
  The attribute slot of an argument that may be \<^verbatim>\<open>None\<close>: \<^verbatim>\<open>None\<close> has neither
  a \<^verbatim>\<open>registry\<close> nor a \<^verbatim>\<open>context\<close> attribute.
\<close>

definition request_attr :: "(request \<Rightarrow> 'a attr) \<Rightarrow> nat option \<Rightarrow> world \<Rightarrow> 'a attr" where
  "request_attr field request w =
     (case request of None \<Rightarrow> Missing | Some r \<Rightarrow> field (heap w ! r))"

text \<open>\<^verbatim>\<open>request.registry = registry\<close> and \<^verbatim>\<open>request.context = root\<close>.\<close>

definition setattr_registry :: "nat \<Rightarrow> registry option \<Rightarrow> world \<Rightarrow> world" where
  "setattr_registry r v w =
     w\<lparr>heap := (heap w)[r := (heap w ! r)\<lparr>req_registry := Attr v\<rparr>]\<rparr>"

definition setattr_context :: "nat \<Rightarrow> resource option \<Rightarrow> world \<Rightarrow> world" where
  "setattr_context r v w =
     w\<lparr>heap := (heap w)[r := (heap w ! r)\<lparr>req_context := Attr v\<rparr>]\<rparr>"

subsection \<open>The collaborators' operations\<close>

text \<open>
  The module defers every failure but one to its collaborators. Of these, the finished
  callbacks are modelled with their failure, since the closer of \<^verbatim>\<open>prepare\<close> has code
  after the call that runs them. The registry lookup, the factories and the request
  extensions are taken to return normally.
\<close>

text \<open>
  Modelled from the spec: \<^verbatim>\<open>request_factory.blank(path)\<close> is not in the source file;
  the spec describes "a request type constructible from a blank path". The new object
  has no registry and no context yet, and an empty queue of finished callbacks.
\<close>

definition blank :: "request_factory \<Rightarrow> string \<Rightarrow> world \<Rightarrow> nat \<times> world" where
  "blank request_factory path w =
     (length (heap w),
      w\<lparr>heap := heap w @
          [\<lparr>req_factory = request_factory, req_path = path, req_registry = Missing,
            req_context = Missing, finished_callbacks = Attr [], req_extensions = []\<rparr>]\<rparr>)"

text \<open>
  Modelled from the spec: \<^verbatim>\<open>RequestContext\<close> is not in the source file; the spec
  describes "a thread-local context manager with begin/end operations" that maintains
  a "stack of current request/registry pairs, pushed on entry and popped on exit".
  The context object holds its request. \<open>begin\<close> pushes one frame, made of the request
  and of the registry the request carries at that moment; \<open>end\<close> pops the top frame, and
  leaves an empty stack as it is.
\<close>

datatype request_context = RequestContext nat

definition RequestContext_begin :: "request_context \<Rightarrow> world \<Rightarrow> world" where
  "RequestContext_begin ctx w =
     (case ctx of RequestContext r \<Rightarrow>
        (let f = \<lparr>frame_request = r,
                  frame_registry = getattr (req_registry (heap w ! r)) None\<rparr>
         in w\<lparr>manager := f # manager w, trace := trace w @ [Begin f]\<rparr>))"

definition RequestContext_end :: "request_context \<Rightarrow> world \<Rightarrow> world" where
  "RequestContext_end ctx w =
     (case manager w of
        [] \<Rightarrow> w
      | f # stack \<Rightarrow> w\<lparr>manager := stack, trace := trace w @ [End f]\<rparr>)"

text \<open>
  Modelled from the spec: \<^verbatim>\<open>apply_request_extensions\<close> is not in the source file; the
  spec says "apply registered request extensions". The extensions registered in the
  request's registry become attributes of the request.
\<close>

definition apply_request_extensions :: "nat \<Rightarrow> world \<Rightarrow> world" where
  "apply_request_extensions r w =
     (case getattr (req_registry (heap w ! r)) None of
        None \<Rightarrow> w
      | Some reg \<Rightarrow>
          w\<lparr>heap := (heap w)[r := (heap w ! r)\<lparr>req_extensions := IRequestExtensions reg\<rparr>]\<rparr>)"

text \<open>
  Modelled from the spec: \<^verbatim>\<open>request._process_finished_callbacks\<close> is not in the source
  file; the spec describes "a post-processing hook invoked once before teardown" that
  runs "any registered finished-callbacks". The hook takes the callbacks from the
  request's queue one by one, in the order of their registration, and calls each with
  the request. A callback that raises ends the hook with its exception: the callbacks
  behind it stay in the queue, not called.
\<close>

fun run_callbacks :: "nat \<Rightarrow> callback list \<Rightarrow> world \<Rightarrow> (error + unit) \<times> world" where
  "run_callbacks r [] w = (Inr (), w)"
| "run_callbacks r (cb # cbs) w =
     (let w1 = w\<lparr>heap := (heap w)[r := (heap w ! r)\<lparr>finished_callbacks := Attr cbs\<rparr>],
                 trace := trace w @ [Called cb r]\<rparr>
      in case cb of
           Callback n \<Rightarrow> run_callbacks r cbs w1
         | FailingCallback n \<Rightarrow> (Inl (CallbackError n), w1))"

definition process_finished_callbacks :: "nat \<Rightarrow> world \<Rightarrow> (error + unit) \<times> world" where
  "process_finished_callbacks r w =
     (case finished_callbacks (heap w ! r) of
        Missing \<Rightarrow> (Inl (AttributeError ''finished_callbacks''), w)
      | Attr cbs \<Rightarrow>
          run_callbacks r cbs (w\<lparr>trace := trace w @ [ProcessFinishedCallbacks r]\<rparr>))"

text \<open>
  Modelled from the spec: the root factories are not in the source file; the glossary
  describes a root factory as a "function producing the application's root resource for
  a given request".
\<close>

definition call_root_factory :: "root_factory \<Rightarrow> nat \<Rightarrow> resource" where
  "call_root_factory root_factory r = RootOf root_factory r"

text \<open>What a script does between bootstrap and teardown: \<^verbatim>\<open>request.add_finished_callback\<close>.\<close>

definition add_finished_callback :: "nat \<Rightarrow> callback \<Rightarrow> world \<Rightarrow> world" where
  "add_finished_callback r cb w =
     w\<lparr>heap := (heap w)[r := (heap w ! r)
          \<lparr>finished_callbacks := Attr (getattr (finished_callbacks (heap w ! r)) [] @ [cb])\<rparr>]\<rparr>"

subsection \<open>The module\<close>

text \<open>A callable without arguments, such as a closer.\<close>

type_synonym closer = "world \<Rightarrow> (error + unit) \<times> world"

text \<open>
  \<^verbatim>\<open>_make_request(path, registry=None)\<close>. With no registry and no application loaded,
  \<^verbatim>\<open>registry.queryUtility\<close> is an attribute lookup on \<^verbatim>\<open>None\<close>.
\<close>

definition make_request :: "string \<Rightarrow> registry option \<Rightarrow> world \<Rightarrow> (error + nat) \<times> world" where
  "make_request path registry w =
     (let registry = (if registry = None then global_registries_last w else registry)
      in case registry of
           None \<Rightarrow> (Inl (AttributeError ''queryUtility''), w)
         | Some reg \<Rightarrow>
             (let request_factory = queryUtility reg IRequestFactory Request;
                  (request, w1) = blank request_factory path w;
                  w2 = setattr_registry request (Some reg) w1
              in (Inr request, w2)))"

text \<open>The router given to \<^verbatim>\<open>get_root\<close>: its \<^verbatim>\<open>registry\<close> and \<^verbatim>\<open>root_factory\<close>.\<close>

record router =
  app_registry :: registry
  app_root_factory :: root_factory

text \<open>The closer that \<^verbatim>\<open>get_root\<close> returns: it closes over \<^verbatim>\<open>ctx\<close>.\<close>

definition get_root_closer :: "request_context \<Rightarrow> closer" where
  "get_root_closer ctx w = (Inr (), RequestContext_end ctx w)"

definition get_root ::
  "router \<Rightarrow> nat option \<Rightarrow> world \<Rightarrow> (error + resource \<times> closer) \<times> world" where
  "get_root app request w =
     (let registry = app_registry app
      in case (case request of
                 None \<Rightarrow> make_request ''/'' (Some registry) w
               | Some r \<Rightarrow> (Inr r, w)) of
           (Inl e, w1) \<Rightarrow> (Inl e, w1)
         | (Inr request, w1) \<Rightarrow>
             (let w2 = setattr_registry request (Some registry) w1;
                  ctx = RequestContext request;
                  w3 = RequestContext_begin ctx w2;
                  root = call_root_factory (app_root_factory app) request
              in (Inr (root, get_root_closer ctx), w3)))"

text \<open>
  The closer that \<^verbatim>\<open>prepare\<close> returns: it closes over \<^verbatim>\<open>request\<close> and \<^verbatim>\<open>ctx\<close>, and reads
  the request's callbacks when it is called. Reading \<^verbatim>\<open>request.finished_callbacks\<close> raises
  \<^verbatim>\<open>AttributeError\<close> on an object without the attribute; an empty queue is false. There
  is no \<^verbatim>\<open>try\<close> around the hook: when it raises, the closer raises and \<^verbatim>\<open>ctx.end()\<close> is
  not reached.
\<close>

definition prepare_closer :: "nat \<Rightarrow> request_context \<Rightarrow> closer" where
  "prepare_closer request ctx w =
     (case finished_callbacks (heap w ! request) of
        Missing \<Rightarrow> (Inl (AttributeError ''finished_callbacks''), w)
      | Attr cbs \<Rightarrow>
          (case (if cbs \<noteq> [] then process_finished_callbacks request w else (Inr (), w)) of
             (Inl e, w1) \<Rightarrow> (Inl e, w1)
           | (Inr u, w1) \<Rightarrow> (Inr (), RequestContext_end ctx w1)))"

text \<open>
  \<^verbatim>\<open>AppEnvironment\<close> is a dictionary with two more methods. Its values are of several
  kinds.
\<close>

datatype env_value =
    VRoot resource
  | VCloser closer
  | VRegistry registry
  | VRequest nat
  | VRootFactory root_factory

type_synonym app_environment = "string \<rightharpoonup> env_value"

definition AppEnvironment ::
  "resource \<Rightarrow> closer \<Rightarrow> registry \<Rightarrow> nat \<Rightarrow> root_factory \<Rightarrow> app_environment" where
  "AppEnvironment root closer registry request root_factory =
     [''root'' \<mapsto> VRoot root,
      ''closer'' \<mapsto> VCloser closer,
      ''registry'' \<mapsto> VRegistry registry,
      ''request'' \<mapsto> VRequest request,
      ''root_factory'' \<mapsto> VRootFactory root_factory]"

definition AppEnvironment_enter :: "app_environment \<Rightarrow> app_environment" where
  "AppEnvironment_enter self = self"

text \<open>
  \<^verbatim>\<open>__exit__\<close> ignores the exception it is given and returns \<^verbatim>\<open>None\<close>. A dictionary
  without the key raises \<^verbatim>\<open>KeyError\<close>, and a value that is no callable \<^verbatim>\<open>TypeError\<close>.
\<close>

definition AppEnvironment_exit :: "app_environment \<Rightarrow> closer" where
  "AppEnvironment_exit self w =
     (case self ''closer'' of
        None \<Rightarrow> (Inl (KeyError ''closer''), w)
      | Some (VCloser closer) \<Rightarrow> closer w
      | Some _ \<Rightarrow> (Inl (TypeError ''object is not callable''), w))"

definition no_application_message :: string where
  "no_application_message =
     ''No valid Pyramid applications could be '' @
     ''found, make sure one has been created '' @
     ''before trying to activate it.''"

definition prepare ::
  "nat option \<Rightarrow> registry option \<Rightarrow> world \<Rightarrow> (error + app_environment) \<times> world" where
  "prepare request registry w =
     (let registry = (if registry = None
                      then getattr (request_attr req_registry request w)
                             (global_registries_last w)
                      else registry)
      in case registry of
           None \<Rightarrow> (Inl (ConfigurationError no_application_message), w)
         | Some reg \<Rightarrow>
             (case (case request of
                      None \<Rightarrow> make_request ''/'' (Some reg) w
                    | Some r \<Rightarrow> (Inr r, w)) of
                (Inl e, w1) \<Rightarrow> (Inl e, w1)
              | (Inr request, w1) \<Rightarrow>
                  (let w2 = setattr_registry request (Some reg) w1;
                       ctx = RequestContext request;
                       w3 = RequestContext_begin ctx w2;
                       w4 = apply_request_extensions request w3;
                       closer = prepare_closer request ctx;
                       root_factory = queryUtility reg IRootFactory DefaultRootFactory;
                       root = call_root_factory root_factory request;
                       w5 = (if getattr (req_context (heap w4 ! request)) None = None
                             then setattr_context request (Some root) w4
                             else w4)
                   in (Inr (AppEnvironment root closer reg request root_factory), w5))))"

subsection \<open>Notions used by the statements\<close>

text \<open>
  The registry that \<^verbatim>\<open>prepare\<close> works with, if there is one: the argument, else the
  \<^verbatim>\<open>registry\<close> attribute of the request when the request has one, else the registry
  of the application loaded last.
\<close>

definition resolved_registry :: "nat option \<Rightarrow> registry option \<Rightarrow> world \<Rightarrow> registry option" where
  "resolved_registry request registry w =
     (case registry of
        Some reg \<Rightarrow> Some reg
      | None \<Rightarrow>
          (case request of
             None \<Rightarrow> global_registries_last w
           | Some r \<Rightarrow>
               (case req_registry (heap w ! r) of
                  Missing \<Rightarrow> global_registries_last w
                | Attr v \<Rightarrow> v)))"

text \<open>
  Whether a callback returns, the callbacks of a queue that the hook calls (those up to
  and with the first that raises), and whether the request of a state has a queue of
  callbacks that all return.
\<close>

fun returns :: "callback \<Rightarrow> bool" where
  "returns (Callback n) = True"
| "returns (FailingCallback n) = False"

fun called :: "callback list \<Rightarrow> callback list" where
  "called [] = []"
| "called (cb # cbs) = (if returns cb then cb # called cbs else [cb])"

definition callbacks_return :: "world \<Rightarrow> nat \<Rightarrow> bool" where
  "callbacks_return w r =
     (case finished_callbacks (heap w ! r) of
        Missing \<Rightarrow> False
      | Attr cbs \<Rightarrow> list_all returns cbs)"

text \<open>The frame that a bootstrap pushes for request \<open>r\<close> and registry \<open>reg\<close>.\<close>

definition pushed_frame :: "nat \<Rightarrow> registry \<Rightarrow> frame" where
  "pushed_frame r reg = \<lparr>frame_request = r, frame_registry = Some reg\<rparr>"

subsection \<open>States to run the module on\<close>

definition app_one :: registry where
  "app_one = \<lparr>package_name = ''app_one'', IRequestFactory = None, IRootFactory = None,
               IRequestExtensions = []\<rparr>"

definition app_two :: registry where
  "app_two = \<lparr>package_name = ''app_two'', IRequestFactory = Some (RequestFactory 1),
               IRootFactory = Some (RootFactory 1), IRequestExtensions = [''user'']\<rparr>"

definition own_request :: request where
  "own_request = \<lparr>req_factory = Request, req_path = ''/admin'',
                   req_registry = Attr (Some app_two),
                   req_context = Attr (Some (Resource 7)),
                   finished_callbacks = Attr [Callback 1], req_extensions = []\<rparr>"

definition router_two :: router where
  "router_two = \<lparr>app_registry = app_two, app_root_factory = RootFactory 1\<rparr>"

definition world_of :: "request list \<Rightarrow> registry option \<Rightarrow> world" where
  "world_of requests loaded =
     \<lparr>heap = requests, manager = [], global_registries_last = loaded, trace = []\<rparr>"

section \<open>What the functions compute\<close>

text \<open>
  The result of each function of the module in closed form: the value returned and the
  state reached. The statements of the following sections are read off these.
\<close>

lemma make_request_Some:
  "make_request path (Some reg) w =
     (Inr (length (heap w)),
      w\<lparr>heap := heap w @
          [\<lparr>req_factory = queryUtility reg IRequestFactory Request, req_path = path,
            req_registry = Attr (Some reg), req_context = Missing,
            finished_callbacks = Attr [], req_extensions = []\<rparr>]\<rparr>)"
  by (simp add: make_request_def blank_def setattr_registry_def Let_def)

lemma prepare_request_given:
  assumes "r < length (heap w)"
  shows "prepare (Some r) registry w =
    (case resolved_registry (Some r) registry w of
       None \<Rightarrow> (Inl (ConfigurationError no_application_message), w)
     | Some reg \<Rightarrow>
        (let rf = queryUtility reg IRootFactory DefaultRootFactory;
             root = call_root_factory rf r
         in (Inr (AppEnvironment root (prepare_closer r (RequestContext r)) reg r rf),
             w\<lparr>manager := pushed_frame r reg # manager w,
               trace := trace w @ [Begin (pushed_frame r reg)],
               heap := (heap w)[r := (heap w ! r)
                  \<lparr>req_registry := Attr (Some reg),
                   req_extensions := IRequestExtensions reg,
                   req_context :=
                     (if getattr (req_context (heap w ! r)) None = None
                      then Attr (Some root) else req_context (heap w ! r))\<rparr>]\<rparr>)))"
  using assms
  by (simp add: prepare_def resolved_registry_def pushed_frame_def Let_def request_attr_def
      setattr_registry_def RequestContext_begin_def apply_request_extensions_def getattr_def
      setattr_context_def split: option.split attr.split)

lemma prepare_request_None:
  "prepare None registry w =
    (case resolved_registry None registry w of
       None \<Rightarrow> (Inl (ConfigurationError no_application_message), w)
     | Some reg \<Rightarrow>
        (let r = length (heap w);
             rf = queryUtility reg IRootFactory DefaultRootFactory;
             root = call_root_factory rf r
         in (Inr (AppEnvironment root (prepare_closer r (RequestContext r)) reg r rf),
             w\<lparr>manager := pushed_frame r reg # manager w,
               trace := trace w @ [Begin (pushed_frame r reg)],
               heap := heap w @
                  [\<lparr>req_factory = queryUtility reg IRequestFactory Request,
                    req_path = ''/'',
                    req_registry = Attr (Some reg),
                    req_context = Attr (Some root),
                    finished_callbacks = Attr [],
                    req_extensions = IRequestExtensions reg\<rparr>]\<rparr>)))"
  by (simp add: prepare_def resolved_registry_def pushed_frame_def Let_def request_attr_def
      make_request_Some setattr_registry_def
      RequestContext_begin_def apply_request_extensions_def getattr_def
      setattr_context_def split: option.split)

lemma get_root_request_given:
  assumes "r < length (heap w)"
  shows "get_root app (Some r) w =
     (Inr (call_root_factory (app_root_factory app) r, get_root_closer (RequestContext r)),
      w\<lparr>manager := pushed_frame r (app_registry app) # manager w,
        trace := trace w @ [Begin (pushed_frame r (app_registry app))],
        heap := (heap w)[r := (heap w ! r)\<lparr>req_registry := Attr (Some (app_registry app))\<rparr>]\<rparr>)"
  using assms
  by (simp add: get_root_def pushed_frame_def Let_def setattr_registry_def
      RequestContext_begin_def getattr_def)

lemma get_root_request_None:
  "get_root app None w =
     (let r = length (heap w) in
      (Inr (call_root_factory (app_root_factory app) r, get_root_closer (RequestContext r)),
       w\<lparr>manager := pushed_frame r (app_registry app) # manager w,
         trace := trace w @ [Begin (pushed_frame r (app_registry app))],
         heap := heap w @
            [\<lparr>req_factory = queryUtility (app_registry app) IRequestFactory Request,
              req_path = ''/'',
              req_registry = Attr (Some (app_registry app)),
              req_context = Missing,
              finished_callbacks = Attr [],
              req_extensions = []\<rparr>]\<rparr>))"
  by (simp add: get_root_def pushed_frame_def Let_def make_request_Some setattr_registry_def
      RequestContext_begin_def getattr_def)

lemma manager_RequestContext_end:
  "manager (RequestContext_end ctx w) = tl (manager w)"
  by (simp add: RequestContext_end_def split: list.split)

lemma manager_get_root_closer:
  "manager (snd (get_root_closer ctx w)) = tl (manager w)"
  by (simp add: get_root_closer_def manager_RequestContext_end)

lemma AppEnvironment_lookup:
  "AppEnvironment root c reg r rf ''root'' = Some (VRoot root)"
  "AppEnvironment root c reg r rf ''closer'' = Some (VCloser c)"
  "AppEnvironment root c reg r rf ''registry'' = Some (VRegistry reg)"
  "AppEnvironment root c reg r rf ''request'' = Some (VRequest r)"
  "AppEnvironment root c reg r rf ''root_factory'' = Some (VRootFactory rf)"
  by (simp_all add: AppEnvironment_def)

lemma AppEnvironment_exit_bundle:
  "AppEnvironment_exit (AppEnvironment root c reg r rf) w = c w"
  by (simp add: AppEnvironment_exit_def AppEnvironment_lookup)

lemma prepare_returns:
  assumes "valid_request w request"
      and "resolved_registry request registry w = Some reg"
  shows "\<exists>w1. prepare request registry w =
           (Inr (AppEnvironment
                  (call_root_factory (queryUtility reg IRootFactory DefaultRootFactory)
                     (case request of None \<Rightarrow> length (heap w) | Some r \<Rightarrow> r))
                  (prepare_closer (case request of None \<Rightarrow> length (heap w) | Some r \<Rightarrow> r)
                     (RequestContext (case request of None \<Rightarrow> length (heap w) | Some r \<Rightarrow> r)))
                  reg
                  (case request of None \<Rightarrow> length (heap w) | Some r \<Rightarrow> r)
                  (queryUtility reg IRootFactory DefaultRootFactory)), w1)
         \<and> manager w1 =
             pushed_frame (case request of None \<Rightarrow> length (heap w) | Some r \<Rightarrow> r) reg # manager w
         \<and> trace w1 =
             trace w @ [Begin (pushed_frame (case request of None \<Rightarrow> length (heap w) | Some r \<Rightarrow> r) reg)]"
proof (cases request)
  case None
  with assms(2) show ?thesis
    by (simp add: prepare_request_None Let_def)
next
  case (Some r)
  with assms have "r < length (heap w)"
    by (simp add: valid_request_def valid_ref_def)
  with Some assms(2) show ?thesis
    by (simp add: prepare_request_given Let_def)
qed

lemma prepare_returned:
  assumes "prepare request registry w = (Inr env, w1)"
  shows "\<exists>reg. resolved_registry request registry w = Some reg"
  using assms
  by (cases "resolved_registry request registry w")
     (auto simp: prepare_def resolved_registry_def getattr_def request_attr_def
       split: option.splits attr.splits)

section \<open>Failing without a registry\<close>

text \<open>
  C1. A call to \<^verbatim>\<open>prepare\<close> without a registry argument, with no request or a request
  that has no \<^verbatim>\<open>registry\<close> attribute, and with no application loaded before, raises
  \<^verbatim>\<open>ConfigurationError\<close>. It returns no bundle and leaves the state of the process, the
  thread-local stack included, as it found it.
\<close>

theorem prepare_without_registry_raises:
  assumes "global_registries_last w = None"
      and "request = None \<or> (\<exists>r. request = Some r \<and> req_registry (heap w ! r) = Missing)"
  shows "prepare request None w = (Inl (ConfigurationError no_application_message), w)"
  using assms by (auto simp: prepare_def getattr_def request_attr_def)

theorem prepare_without_registry_raises_witness:
  "prepare None None (world_of [] None) =
     (Inl (ConfigurationError no_application_message), world_of [] None)
   \<and> prepare (Some 0) None (world_of [own_request\<lparr>req_registry := Missing\<rparr>] None) =
     (Inl (ConfigurationError no_application_message),
      world_of [own_request\<lparr>req_registry := Missing\<rparr>] None)"
  using prepare_without_registry_raises [of "world_of [] None" None]
    prepare_without_registry_raises
      [of "world_of [own_request\<lparr>req_registry := Missing\<rparr>] None" "Some 0"]
  by (simp add: world_of_def)

section \<open>The order of the registry fallback\<close>

text \<open>
  C9. The \<^verbatim>\<open>registry\<close> attribute of a supplied request is consulted before the registry
  loaded last: a request whose \<^verbatim>\<open>registry\<close> attribute exists and is \<^verbatim>\<open>None\<close> makes
  \<^verbatim>\<open>prepare\<close> raise \<^verbatim>\<open>ConfigurationError\<close> whatever \<^verbatim>\<open>global_registries.last\<close> holds,
  while a request without the attribute makes \<^verbatim>\<open>prepare\<close> use the registry loaded last.
\<close>

theorem request_registry_before_last_loaded:
  "(req_registry (heap w ! r) = Attr None \<longrightarrow>
      prepare (Some r) None w = (Inl (ConfigurationError no_application_message), w))
   \<and> (valid_ref w r \<longrightarrow> req_registry (heap w ! r) = Missing \<longrightarrow>
        global_registries_last w = Some reg \<longrightarrow>
        (\<exists>env w1. prepare (Some r) None w = (Inr env, w1)
           \<and> env ''registry'' = Some (VRegistry reg)))"
proof (intro conjI impI)
  assume "req_registry (heap w ! r) = Attr None"
  then show "prepare (Some r) None w = (Inl (ConfigurationError no_application_message), w)"
    by (simp add: prepare_def getattr_def request_attr_def)
next
  assume v: "valid_ref w r" and m: "req_registry (heap w ! r) = Missing"
    and g: "global_registries_last w = Some reg"
  from m g have "resolved_registry (Some r) None w = Some reg"
    by (simp add: resolved_registry_def)
  with v prepare_returns [of w "Some r" None reg]
  show "\<exists>env w1. prepare (Some r) None w = (Inr env, w1)
           \<and> env ''registry'' = Some (VRegistry reg)"
    by (auto simp: valid_request_def AppEnvironment_lookup)
qed

theorem request_registry_before_last_loaded_witness:
  "global_registries_last (world_of [own_request\<lparr>req_registry := Attr None\<rparr>] (Some app_one))
     = Some app_one
   \<and> prepare (Some 0) None (world_of [own_request\<lparr>req_registry := Attr None\<rparr>] (Some app_one)) =
     (Inl (ConfigurationError no_application_message),
      world_of [own_request\<lparr>req_registry := Attr None\<rparr>] (Some app_one))
   \<and> (\<exists>env w1. prepare (Some 0) None
          (world_of [own_request\<lparr>req_registry := Missing\<rparr>] (Some app_one)) = (Inr env, w1)
        \<and> env ''registry'' = Some (VRegistry app_one))"
  using request_registry_before_last_loaded
      [of "world_of [own_request\<lparr>req_registry := Attr None\<rparr>] (Some app_one)" 0]
    request_registry_before_last_loaded
      [of "world_of [own_request\<lparr>req_registry := Missing\<rparr>] (Some app_one)" 0 app_one]
  by (simp add: world_of_def valid_ref_def)

section \<open>The registry of a supplied request\<close>

text \<open>
  C3. When a request is supplied and a registry is resolved, \<^verbatim>\<open>prepare\<close> returns, and
  the \<^verbatim>\<open>registry\<close> attribute of the supplied request then holds the resolved registry,
  whatever it held before.
\<close>

theorem prepare_resets_request_registry:
  assumes "valid_ref w r"
      and "resolved_registry (Some r) registry w = Some reg"
  shows "\<exists>env w1. prepare (Some r) registry w = (Inr env, w1)
           \<and> env ''registry'' = Some (VRegistry reg)
           \<and> env ''request'' = Some (VRequest r)
           \<and> req_registry (heap w1 ! r) = Attr (Some reg)"
proof -
  from assms(1) have "r < length (heap w)"
    by (simp add: valid_ref_def)
  with assms(2) show ?thesis
    by (simp add: prepare_request_given Let_def AppEnvironment_lookup)
qed

theorem prepare_resets_request_registry_witness:
  "req_registry (heap (world_of [own_request] None) ! 0) = Attr (Some app_two)
   \<and> app_two \<noteq> app_one
   \<and> (\<exists>env w1. prepare (Some 0) (Some app_one) (world_of [own_request] None) = (Inr env, w1)
        \<and> env ''registry'' = Some (VRegistry app_one)
        \<and> env ''request'' = Some (VRequest 0)
        \<and> req_registry (heap w1 ! 0) = Attr (Some app_one))"
  using prepare_resets_request_registry
      [of "world_of [own_request] None" 0 "Some app_one" app_one]
  by (simp add: world_of_def valid_ref_def resolved_registry_def own_request_def
      app_one_def app_two_def)

section \<open>The root and the context of the request\<close>

text \<open>
  C2, as stated: after every call with a resolvable registry the \<^verbatim>\<open>context\<close> attribute of
  the request equals the root computed. This fails for a supplied request that already
  has a context: \<^verbatim>\<open>prepare\<close> computes the root from the default root factory and leaves
  the request's context as it was.
\<close>

theorem prepare_context_counterexample:
  "fst (prepare (Some 0) (Some app_one) (world_of [own_request] None)) =
     Inr (AppEnvironment (RootOf DefaultRootFactory 0)
            (prepare_closer 0 (RequestContext 0)) app_one 0 DefaultRootFactory)
   \<and> req_context (heap (snd (prepare (Some 0) (Some app_one) (world_of [own_request] None))) ! 0)
       = Attr (Some (Resource 7))
   \<and> Attr (Some (Resource 7)) \<noteq> Attr (Some (RootOf DefaultRootFactory 0))"
  by (simp add: prepare_request_given resolved_registry_def world_of_def own_request_def
      app_one_def queryUtility_def call_root_factory_def getattr_def Let_def)

text \<open>
  C2, amended: for every call with a resolvable registry, \<^verbatim>\<open>prepare\<close> returns a bundle
  for the request supplied, or for a new request when none is supplied. The bundle's
  root factory is the \<^verbatim>\<open>IRootFactory\<close> utility of the resolved registry, or
  \<^verbatim>\<open>DefaultRootFactory\<close> when none is registered, and its root is that factory applied
  to the request. The \<^verbatim>\<open>context\<close> attribute of the request ends up equal to the root
  when the request had no context or the context \<^verbatim>\<open>None\<close> before the call (as every
  request that \<^verbatim>\<open>prepare\<close> builds itself has); a supplied request whose context is an
  object keeps that object.
\<close>

theorem prepare_root_from_root_factory:
  assumes "valid_request w request"
      and "resolved_registry request registry w = Some reg"
  shows "\<exists>env w1 r.
           prepare request registry w = (Inr env, w1)
           \<and> env ''request'' = Some (VRequest r)
           \<and> (case request of
                 None \<Rightarrow> \<not> valid_ref w r \<and> valid_ref w1 r
               | Some supplied \<Rightarrow> r = supplied)
           \<and> env ''registry'' = Some (VRegistry reg)
           \<and> env ''root_factory'' =
               Some (VRootFactory (queryUtility reg IRootFactory DefaultRootFactory))
           \<and> env ''root'' =
               Some (VRoot (call_root_factory
                              (queryUtility reg IRootFactory DefaultRootFactory) r))
           \<and> req_context (heap w1 ! r) =
               (case request_attr req_context request w of
                  Attr (Some c) \<Rightarrow> Attr (Some c)
                | _ \<Rightarrow> Attr (Some (call_root_factory
                                      (queryUtility reg IRootFactory DefaultRootFactory) r)))"
proof (cases request)
  case None
  with assms(2) show ?thesis
    by (simp add: prepare_request_None Let_def AppEnvironment_lookup request_attr_def
        valid_ref_def)
next
  case (Some r)
  with assms(1) have "r < length (heap w)"
    by (simp add: valid_request_def valid_ref_def)
  with Some assms(2) show ?thesis
    by (simp add: prepare_request_given Let_def AppEnvironment_lookup request_attr_def
        getattr_def split: attr.split option.split)
qed

theorem prepare_root_from_root_factory_witness:
  "(\<exists>env w1 r. prepare None (Some app_two) (world_of [] None) = (Inr env, w1)
      \<and> env ''request'' = Some (VRequest r)
      \<and> \<not> valid_ref (world_of [] None) r \<and> valid_ref w1 r
      \<and> env ''root_factory'' = Some (VRootFactory (RootFactory 1))
      \<and> env ''root'' = Some (VRoot (RootOf (RootFactory 1) r))
      \<and> req_context (heap w1 ! r) = Attr (Some (RootOf (RootFactory 1) r)))
   \<and> (\<exists>env w1 r. prepare (Some 0) (Some app_one)
          (world_of [own_request\<lparr>req_context := Attr None\<rparr>] None) = (Inr env, w1)
      \<and> env ''request'' = Some (VRequest r)
      \<and> r = 0
      \<and> env ''root_factory'' = Some (VRootFactory DefaultRootFactory)
      \<and> env ''root'' = Some (VRoot (RootOf DefaultRootFactory r))
      \<and> req_context (heap w1 ! r) = Attr (Some (RootOf DefaultRootFactory r)))
   \<and> (\<exists>env w1 r. prepare (Some 0) (Some app_one) (world_of [own_request] None) = (Inr env, w1)
      \<and> env ''request'' = Some (VRequest r)
      \<and> r = 0
      \<and> env ''root'' = Some (VRoot (RootOf DefaultRootFactory r))
      \<and> req_context (heap w1 ! r) = Attr (Some (Resource 7)))"
proof -
  have q: "queryUtility app_two IRootFactory DefaultRootFactory = RootFactory 1"
    "queryUtility app_one IRootFactory DefaultRootFactory = DefaultRootFactory"
    by (simp_all add: queryUtility_def app_one_def app_two_def)
  have a: "valid_request (world_of [] None) None"
    "resolved_registry None (Some app_two) (world_of [] None) = Some app_two"
    by (simp_all add: valid_request_def resolved_registry_def)
  have b: "valid_request (world_of [own_request\<lparr>req_context := Attr None\<rparr>] None) (Some 0)"
    "resolved_registry (Some 0) (Some app_one)
       (world_of [own_request\<lparr>req_context := Attr None\<rparr>] None) = Some app_one"
    "request_attr req_context (Some 0)
       (world_of [own_request\<lparr>req_context := Attr None\<rparr>] None) = Attr None"
    by (simp_all add: valid_request_def valid_ref_def resolved_registry_def world_of_def
        request_attr_def)
  have c: "valid_request (world_of [own_request] None) (Some 0)"
    "resolved_registry (Some 0) (Some app_one) (world_of [own_request] None) = Some app_one"
    "request_attr req_context (Some 0) (world_of [own_request] None) = Attr (Some (Resource 7))"
    by (simp_all add: valid_request_def valid_ref_def resolved_registry_def world_of_def
        request_attr_def own_request_def)
  from prepare_root_from_root_factory [OF a] have first:
    "\<exists>env w1 r. prepare None (Some app_two) (world_of [] None) = (Inr env, w1)
      \<and> env ''request'' = Some (VRequest r)
      \<and> \<not> valid_ref (world_of [] None) r \<and> valid_ref w1 r
      \<and> env ''root_factory'' = Some (VRootFactory (RootFactory 1))
      \<and> env ''root'' = Some (VRoot (RootOf (RootFactory 1) r))
      \<and> req_context (heap w1 ! r) = Attr (Some (RootOf (RootFactory 1) r))"
    unfolding q call_root_factory_def by (auto simp: request_attr_def)
  from prepare_root_from_root_factory [OF b(1,2)] have second:
    "\<exists>env w1 r. prepare (Some 0) (Some app_one)
          (world_of [own_request\<lparr>req_context := Attr None\<rparr>] None) = (Inr env, w1)
      \<and> env ''request'' = Some (VRequest r)
      \<and> r = 0
      \<and> env ''root_factory'' = Some (VRootFactory DefaultRootFactory)
      \<and> env ''root'' = Some (VRoot (RootOf DefaultRootFactory r))
      \<and> req_context (heap w1 ! r) = Attr (Some (RootOf DefaultRootFactory r))"
    unfolding q b(3) call_root_factory_def by auto
  from prepare_root_from_root_factory [OF c(1,2)] have third:
    "\<exists>env w1 r. prepare (Some 0) (Some app_one) (world_of [own_request] None) = (Inr env, w1)
      \<and> env ''request'' = Some (VRequest r)
      \<and> r = 0
      \<and> env ''root'' = Some (VRoot (RootOf DefaultRootFactory r))
      \<and> req_context (heap w1 ! r) = Attr (Some (Resource 7))"
    unfolding q c(3) call_root_factory_def by auto
  from first second third show ?thesis
    by blast
qed

section \<open>A context that is already there\<close>

text \<open>
  C10. \<^verbatim>\<open>prepare\<close> assigns the root to the \<^verbatim>\<open>context\<close> attribute of the request only when
  the request has no such attribute or the attribute is \<^verbatim>\<open>None\<close>: for a supplied request,
  the context after a call that returns is the context before it when that was an
  object, and the root otherwise.
\<close>

theorem prepare_keeps_existing_context:
  assumes "valid_ref w r"
      and "prepare (Some r) registry w = (Inr env, w1)"
  shows "\<exists>root. env ''root'' = Some (VRoot root)
           \<and> req_context (heap w1 ! r) =
               (case req_context (heap w ! r) of
                  Attr (Some c) \<Rightarrow> Attr (Some c)
                | _ \<Rightarrow> Attr (Some root))"
proof -
  from assms(1) have len: "r < length (heap w)"
    by (simp add: valid_ref_def)
  from assms(2) obtain reg where "resolved_registry (Some r) registry w = Some reg"
    using prepare_returned by blast
  with len assms(2) show ?thesis
    by (auto simp: prepare_request_given Let_def AppEnvironment_lookup getattr_def
        split: attr.splits option.splits)
qed

theorem prepare_keeps_existing_context_witness:
  "req_context (heap (world_of [own_request] None) ! 0) = Attr (Some (Resource 7))
   \<and> req_context (heap (snd (prepare (Some 0) (Some app_one) (world_of [own_request] None))) ! 0)
       = Attr (Some (Resource 7))"
proof -
  obtain env w1 where p: "prepare (Some 0) (Some app_one) (world_of [own_request] None) = (Inr env, w1)"
    using prepare_returns [of "world_of [own_request] None" "Some 0" "Some app_one" app_one]
    by (auto simp: world_of_def valid_request_def valid_ref_def resolved_registry_def)
  have v: "valid_ref (world_of [own_request] None) 0"
    by (simp add: world_of_def valid_ref_def)
  from prepare_keeps_existing_context [OF v p] p show ?thesis
    by (simp add: world_of_def own_request_def)
qed

lemma prepare_bundle:
  assumes "valid_request w request"
      and "prepare request registry w = (Inr env, w1)"
  shows "\<exists>r reg.
           env = AppEnvironment
                   (call_root_factory (queryUtility reg IRootFactory DefaultRootFactory) r)
                   (prepare_closer r (RequestContext r)) reg r
                   (queryUtility reg IRootFactory DefaultRootFactory)
           \<and> manager w1 = pushed_frame r reg # manager w
           \<and> trace w1 = trace w @ [Begin (pushed_frame r reg)]"
proof -
  from assms(2) obtain reg where "resolved_registry request registry w = Some reg"
    using prepare_returned by blast
  from prepare_returns [OF assms(1) this] assms(2) show ?thesis
    by auto
qed

text \<open>The hook: its outcome, the callbacks it calls, and what it leaves alone.\<close>

lemma fst_run_callbacks:
  "(fst (run_callbacks r cbs w) = Inr ()) = list_all returns cbs"
proof (induction cbs arbitrary: w)
  case Nil
  show ?case by simp
next
  case (Cons cb cbs)
  then show ?case
    by (cases cb) (simp_all add: Let_def)
qed

lemma manager_run_callbacks:
  "manager (snd (run_callbacks r cbs w)) = manager w"
proof (induction cbs arbitrary: w)
  case Nil
  show ?case by simp
next
  case (Cons cb cbs)
  then show ?case
    by (cases cb) (simp_all add: Let_def)
qed

lemma trace_run_callbacks:
  "trace (snd (run_callbacks r cbs w)) = trace w @ map (\<lambda>cb. Called cb r) (called cbs)"
proof (induction cbs arbitrary: w)
  case Nil
  show ?case by simp
next
  case (Cons cb cbs)
  then show ?case
    by (cases cb) (simp_all add: Let_def)
qed

text \<open>The closer of \<^verbatim>\<open>prepare\<close>: when it returns, and what it does to the stack and the trace.\<close>

lemma fst_prepare_closer:
  "(fst (prepare_closer r ctx w) = Inr ()) = callbacks_return w r"
proof (cases "finished_callbacks (heap w ! r)")
  case Missing
  then show ?thesis
    by (simp add: prepare_closer_def callbacks_return_def)
next
  case (Attr cbs)
  let ?w = "w\<lparr>trace := trace w @ [ProcessFinishedCallbacks r]\<rparr>"
  have f: "(fst (run_callbacks r cbs ?w) = Inr ()) = list_all returns cbs"
    by (rule fst_run_callbacks)
  show ?thesis
  proof (cases "cbs = []")
    case True
    with Attr show ?thesis
      by (simp add: prepare_closer_def callbacks_return_def)
  next
    case False
    show ?thesis
    proof (cases "run_callbacks r cbs ?w")
      case (Pair res w1)
      with f have "(res = Inr ()) = list_all returns cbs"
        by simp
      with Attr False Pair show ?thesis
        by (cases res)
           (auto simp: prepare_closer_def callbacks_return_def process_finished_callbacks_def)
    qed
  qed
qed

lemma manager_prepare_closer:
  "manager (snd (prepare_closer r ctx w)) =
     (if callbacks_return w r then tl (manager w) else manager w)"
proof (cases "finished_callbacks (heap w ! r)")
  case Missing
  then show ?thesis
    by (simp add: prepare_closer_def callbacks_return_def)
next
  case (Attr cbs)
  let ?w = "w\<lparr>trace := trace w @ [ProcessFinishedCallbacks r]\<rparr>"
  have m: "manager (snd (run_callbacks r cbs ?w)) = manager w"
    by (simp add: manager_run_callbacks)
  have f: "(fst (run_callbacks r cbs ?w) = Inr ()) = list_all returns cbs"
    by (rule fst_run_callbacks)
  show ?thesis
  proof (cases "cbs = []")
    case True
    with Attr show ?thesis
      by (simp add: prepare_closer_def callbacks_return_def manager_RequestContext_end)
  next
    case False
    show ?thesis
    proof (cases "run_callbacks r cbs ?w")
      case (Pair res w1)
      with m f have "manager w1 = manager w" "(res = Inr ()) = list_all returns cbs"
        by simp_all
      with Attr False Pair show ?thesis
        by (cases res)
           (auto simp: prepare_closer_def callbacks_return_def process_finished_callbacks_def
             manager_RequestContext_end)
    qed
  qed
qed

lemma trace_prepare_closer:
  assumes "finished_callbacks (heap w ! r) = Attr cbs"
  shows "trace (snd (prepare_closer r ctx w)) =
     trace w
     @ (if cbs = [] then []
        else ProcessFinishedCallbacks r # map (\<lambda>cb. Called cb r) (called cbs))
     @ (if list_all returns cbs
        then (case manager w of [] \<Rightarrow> [] | f # stack \<Rightarrow> [End f])
        else [])"
proof (cases "cbs = []")
  case True
  with assms show ?thesis
    by (simp add: prepare_closer_def RequestContext_end_def split: list.split)
next
  case False
  let ?w = "w\<lparr>trace := trace w @ [ProcessFinishedCallbacks r]\<rparr>"
  have m: "manager (snd (run_callbacks r cbs ?w)) = manager w"
    by (simp add: manager_run_callbacks)
  have f: "(fst (run_callbacks r cbs ?w) = Inr ()) = list_all returns cbs"
    by (rule fst_run_callbacks)
  have t: "trace (snd (run_callbacks r cbs ?w)) =
     trace w @ ProcessFinishedCallbacks r # map (\<lambda>cb. Called cb r) (called cbs)"
    by (simp add: trace_run_callbacks)
  show ?thesis
  proof (cases "run_callbacks r cbs ?w")
    case (Pair res w1)
    with m f t have "manager w1 = manager w" "(res = Inr ()) = list_all returns cbs"
      "trace w1 = trace w @ ProcessFinishedCallbacks r # map (\<lambda>cb. Called cb r) (called cbs)"
      by simp_all
    with assms False Pair show ?thesis
      by (cases res)
         (auto simp: prepare_closer_def process_finished_callbacks_def
           RequestContext_end_def split: list.split)
  qed
qed

lemma manager_make_request: "manager (snd (make_request path registry w)) = manager w"
  by (simp add: make_request_def blank_def setattr_registry_def Let_def split: option.split)

lemma get_root_returns:
  assumes "valid_request w request"
  shows "\<exists>w1. get_root app request w =
           (Inr (call_root_factory (app_root_factory app)
                   (case request of None \<Rightarrow> length (heap w) | Some r \<Rightarrow> r),
                 get_root_closer
                   (RequestContext (case request of None \<Rightarrow> length (heap w) | Some r \<Rightarrow> r))),
            w1)
         \<and> manager w1 =
             pushed_frame (case request of None \<Rightarrow> length (heap w) | Some r \<Rightarrow> r)
               (app_registry app) # manager w"
proof (cases request)
  case None
  then show ?thesis
    by (simp add: get_root_request_None Let_def)
next
  case (Some r)
  with assms have "r < length (heap w)"
    by (simp add: valid_request_def valid_ref_def)
  with Some show ?thesis
    by (simp add: get_root_request_given)
qed

section \<open>The request built when none is supplied\<close>

text \<open>
  C8. When no request is supplied and a registry resolves, \<^verbatim>\<open>prepare\<close> works on a new
  request: the object that \<^verbatim>\<open>blank\<close> of the registry's \<^verbatim>\<open>IRequestFactory\<close> utility, or of
  \<^verbatim>\<open>Request\<close> when none is registered, builds for the path \<^verbatim>\<open>'/'\<close>, with its \<^verbatim>\<open>registry\<close>
  attribute set to the resolved registry. \<^verbatim>\<open>get_root\<close> does the same with the registry of
  the application.
\<close>

theorem default_request_from_request_factory:
  "(resolved_registry None registry w = Some reg \<longrightarrow>
      (\<exists>env w1 r. prepare None registry w = (Inr env, w1)
         \<and> env ''request'' = Some (VRequest r)
         \<and> r = fst (blank (queryUtility reg IRequestFactory Request) ''/'' w)
         \<and> \<not> valid_ref w r \<and> valid_ref w1 r
         \<and> req_factory (heap w1 ! r) = queryUtility reg IRequestFactory Request
         \<and> req_path (heap w1 ! r) = ''/''
         \<and> req_registry (heap w1 ! r) = Attr (Some reg)))
   \<and> (\<exists>root c w1 r. get_root app None w = (Inr (root, c), w1)
         \<and> root = call_root_factory (app_root_factory app) r
         \<and> r = fst (blank (queryUtility (app_registry app) IRequestFactory Request) ''/'' w)
         \<and> \<not> valid_ref w r \<and> valid_ref w1 r
         \<and> req_factory (heap w1 ! r) = queryUtility (app_registry app) IRequestFactory Request
         \<and> req_path (heap w1 ! r) = ''/''
         \<and> req_registry (heap w1 ! r) = Attr (Some (app_registry app)))
   \<and> make_request ''/'' (Some reg) w =
       (Inr (fst (blank (queryUtility reg IRequestFactory Request) ''/'' w)),
        setattr_registry (fst (blank (queryUtility reg IRequestFactory Request) ''/'' w))
          (Some reg) (snd (blank (queryUtility reg IRequestFactory Request) ''/'' w)))"
proof (intro conjI impI)
  assume "resolved_registry None registry w = Some reg"
  then show "\<exists>env w1 r. prepare None registry w = (Inr env, w1)
         \<and> env ''request'' = Some (VRequest r)
         \<and> r = fst (blank (queryUtility reg IRequestFactory Request) ''/'' w)
         \<and> \<not> valid_ref w r \<and> valid_ref w1 r
         \<and> req_factory (heap w1 ! r) = queryUtility reg IRequestFactory Request
         \<and> req_path (heap w1 ! r) = ''/''
         \<and> req_registry (heap w1 ! r) = Attr (Some reg)"
    by (simp add: prepare_request_None Let_def AppEnvironment_lookup blank_def valid_ref_def)
next
  show "\<exists>root c w1 r. get_root app None w = (Inr (root, c), w1)
         \<and> root = call_root_factory (app_root_factory app) r
         \<and> r = fst (blank (queryUtility (app_registry app) IRequestFactory Request) ''/'' w)
         \<and> \<not> valid_ref w r \<and> valid_ref w1 r
         \<and> req_factory (heap w1 ! r) = queryUtility (app_registry app) IRequestFactory Request
         \<and> req_path (heap w1 ! r) = ''/''
         \<and> req_registry (heap w1 ! r) = Attr (Some (app_registry app))"
    by (simp add: get_root_request_None Let_def blank_def valid_ref_def)
next
  show "make_request ''/'' (Some reg) w =
       (Inr (fst (blank (queryUtility reg IRequestFactory Request) ''/'' w)),
        setattr_registry (fst (blank (queryUtility reg IRequestFactory Request) ''/'' w))
          (Some reg) (snd (blank (queryUtility reg IRequestFactory Request) ''/'' w)))"
    by (simp add: make_request_def Let_def split_beta)
qed

theorem default_request_from_request_factory_witness:
  "resolved_registry None None (world_of [own_request] (Some app_two)) = Some app_two
   \<and> (\<exists>env w1 r. prepare None None (world_of [own_request] (Some app_two)) = (Inr env, w1)
       \<and> env ''request'' = Some (VRequest r)
       \<and> r = 1
       \<and> req_factory (heap w1 ! r) = RequestFactory 1
       \<and> req_path (heap w1 ! r) = ''/''
       \<and> req_registry (heap w1 ! r) = Attr (Some app_two))"
proof -
  let ?w = "world_of [own_request] (Some app_two)"
  have h: "resolved_registry None None ?w = Some app_two"
    by (simp add: resolved_registry_def world_of_def)
  have b: "fst (blank (RequestFactory 1) ''/'' ?w) = 1"
    by (simp add: blank_def world_of_def)
  have q: "queryUtility app_two IRequestFactory Request = RequestFactory 1"
    by (simp add: queryUtility_def app_two_def)
  from default_request_from_request_factory [of None ?w app_two router_two] h
  obtain env w1 r where "prepare None None ?w = (Inr env, w1)"
    and "env ''request'' = Some (VRequest r)"
    and "r = fst (blank (queryUtility app_two IRequestFactory Request) ''/'' ?w)"
    and "req_factory (heap w1 ! r) = queryUtility app_two IRequestFactory Request"
    and "req_path (heap w1 ! r) = ''/''"
    and "req_registry (heap w1 ! r) = Attr (Some app_two)"
    by blast
  with h show ?thesis
    unfolding q b by blast
qed

lemma prepare_keeps_callbacks:
  assumes "valid_ref w r"
      and "prepare (Some r) registry w = (Inr env, w1)"
  shows "finished_callbacks (heap w1 ! r) = finished_callbacks (heap w ! r)"
proof -
  from assms(1) have len: "r < length (heap w)"
    by (simp add: valid_ref_def)
  from assms(2) obtain reg where "resolved_registry (Some r) registry w = Some reg"
    using prepare_returned by blast
  with len assms(2) show ?thesis
    by (auto simp: prepare_request_given Let_def)
qed


section \<open>The bundle as a scoped resource\<close>

text \<open>
  C4. A bundle that \<^verbatim>\<open>prepare\<close> returned works as a context manager: entering yields the
  bundle itself, and exiting is one call of the bundle's closer, in any state and with
  the closer's outcome: one more pass through the hook and one more frame popped when
  the closer returns, the closer's exception when it raises. Right after \<^verbatim>\<open>prepare\<close>,
  for a request whose finished callbacks all return, that one call returns normally and
  takes from the thread-local stack the one frame \<^verbatim>\<open>prepare\<close> pushed.
\<close>

theorem bundle_is_scoped_resource:
  assumes "valid_request w request"
      and "prepare request registry w = (Inr env, w1)"
  shows "AppEnvironment_enter env = env
         \<and> (\<exists>c r. env ''closer'' = Some (VCloser c)
                \<and> env ''request'' = Some (VRequest r)
                \<and> c = prepare_closer r (RequestContext r)
                \<and> (\<forall>w2. AppEnvironment_exit env w2 = c w2)
                \<and> (callbacks_return w1 r \<longrightarrow>
                      fst (AppEnvironment_exit env w1) = Inr ()
                      \<and> manager (snd (AppEnvironment_exit env w1)) = manager w))"
proof -
  from prepare_bundle [OF assms] obtain r reg where
    env: "env = AppEnvironment
                   (call_root_factory (queryUtility reg IRootFactory DefaultRootFactory) r)
                   (prepare_closer r (RequestContext r)) reg r
                   (queryUtility reg IRootFactory DefaultRootFactory)"
    and m: "manager w1 = pushed_frame r reg # manager w"
    by blast
  show ?thesis
    by (simp add: AppEnvironment_enter_def env AppEnvironment_lookup
        AppEnvironment_exit_bundle fst_prepare_closer manager_prepare_closer m)
qed

theorem bundle_is_scoped_resource_witness:
  "AppEnvironment_enter
     (AppEnvironment (RootOf DefaultRootFactory 0) (prepare_closer 0 (RequestContext 0))
        app_one 0 DefaultRootFactory)
   = AppEnvironment (RootOf DefaultRootFactory 0) (prepare_closer 0 (RequestContext 0))
        app_one 0 DefaultRootFactory
   \<and> callbacks_return (snd (prepare (Some 0) (Some app_one) (world_of [own_request] None))) 0
   \<and> fst (AppEnvironment_exit
        (AppEnvironment (RootOf DefaultRootFactory 0) (prepare_closer 0 (RequestContext 0))
           app_one 0 DefaultRootFactory)
        (snd (prepare (Some 0) (Some app_one) (world_of [own_request] None)))) = Inr ()
   \<and> manager (snd (AppEnvironment_exit
        (AppEnvironment (RootOf DefaultRootFactory 0) (prepare_closer 0 (RequestContext 0))
           app_one 0 DefaultRootFactory)
        (snd (prepare (Some 0) (Some app_one) (world_of [own_request] None))))) = []"
proof -
  let ?w = "world_of [own_request] None"
  let ?E = "AppEnvironment (RootOf DefaultRootFactory 0) (prepare_closer 0 (RequestContext 0))
        app_one 0 DefaultRootFactory"
  define w1 where "w1 = snd (prepare (Some 0) (Some app_one) ?w)"
  have len: "0 < length (heap ?w)"
    by (simp add: world_of_def)
  have v: "valid_request ?w (Some 0)"
    by (simp add: valid_request_def valid_ref_def world_of_def)
  have p: "prepare (Some 0) (Some app_one) ?w = (Inr ?E, w1)"
    unfolding w1_def
    by (simp add: prepare_request_given [OF len] resolved_registry_def Let_def
        queryUtility_def call_root_factory_def app_one_def)
  have "valid_ref ?w 0"
    by (simp add: valid_ref_def world_of_def)
  from prepare_keeps_callbacks [OF this p] have cr: "callbacks_return w1 0"
    by (simp add: callbacks_return_def world_of_def own_request_def)
  from bundle_is_scoped_resource [OF v p] obtain c r where
    "AppEnvironment_enter ?E = ?E"
    and "?E ''request'' = Some (VRequest r)"
    and imp: "callbacks_return w1 r \<longrightarrow>
                fst (AppEnvironment_exit ?E w1) = Inr ()
                \<and> manager (snd (AppEnvironment_exit ?E w1)) = manager ?w"
    by blast
  moreover from this have "r = 0"
    by (simp add: AppEnvironment_lookup)
  moreover have "manager ?w = []"
    by (simp add: world_of_def)
  ultimately show ?thesis
    using cr unfolding w1_def [symmetric] by simp
qed

section \<open>Teardown\<close>




text \<open>
  C6, as stated: the closer runs the finished callbacks and then pops the frame that
  \<^verbatim>\<open>prepare\<close> pushed. Two bootstraps follow each other, for the new requests 0 and 1. The
  closer of the first bundle, called while the second is still open, pops the frame of
  the second bootstrap, and the frame of its own bootstrap stays. And the closer of a
  bundle whose request has a finished callback that raises pops no frame at all.
\<close>

theorem closer_pops_other_frame_counterexample:
  "fst (prepare None (Some app_one) (world_of [] None)) =
     Inr (AppEnvironment (RootOf DefaultRootFactory 0)
            (prepare_closer 0 (RequestContext 0)) app_one 0 DefaultRootFactory)
   \<and> manager (snd (prepare None (Some app_two)
         (snd (prepare None (Some app_one) (world_of [] None))))) =
       [pushed_frame 1 app_two, pushed_frame 0 app_one]
   \<and> trace (snd (prepare_closer 0 (RequestContext 0)
         (snd (prepare None (Some app_two)
           (snd (prepare None (Some app_one) (world_of [] None))))))) =
       [Begin (pushed_frame 0 app_one), Begin (pushed_frame 1 app_two),
        End (pushed_frame 1 app_two)]
   \<and> manager (snd (prepare_closer 0 (RequestContext 0)
         (snd (prepare None (Some app_two)
           (snd (prepare None (Some app_one) (world_of [] None))))))) =
       [pushed_frame 0 app_one]
   \<and> pushed_frame 1 app_two \<noteq> pushed_frame 0 app_one
   \<and> trace (snd (prepare_closer 0 (RequestContext 0)
         (snd (prepare (Some 0) (Some app_one)
           (world_of [own_request\<lparr>finished_callbacks := Attr [FailingCallback 3]\<rparr>] None))))) =
       [Begin (pushed_frame 0 app_one), ProcessFinishedCallbacks 0,
        Called (FailingCallback 3) 0]"
proof -
  have len: "0 < length (heap (world_of [r] None))" for r
    by (simp add: world_of_def)
  show ?thesis
    unfolding prepare_request_None prepare_request_given [OF len]
    by (simp add: resolved_registry_def Let_def
        queryUtility_def call_root_factory_def app_one_def app_two_def
        prepare_closer_def process_finished_callbacks_def RequestContext_end_def
        world_of_def own_request_def getattr_def pushed_frame_def)
qed

text \<open>
  C6, amended: the closer of a bundle that \<^verbatim>\<open>prepare\<close> returned, called on a request with
  a queue of finished callbacks, first has the hook process the callbacks, if and only if
  some are registered at that moment: the hook calls them in order, up to the first that
  raises. Then, if none raised, the closer pops the top frame of the thread-local stack;
  if one raised, the closer raises its exception and pops nothing. The events are
  appended to the trace in this order. The frame popped is the one that \<^verbatim>\<open>prepare\<close>
  pushed whenever the closer is called with the stack as \<^verbatim>\<open>prepare\<close> left it, and the
  stack is then as it was before \<^verbatim>\<open>prepare\<close>.
\<close>

theorem closer_callbacks_then_pop:
  assumes "valid_request w request"
      and "prepare request registry w = (Inr env, w1)"
  shows "\<exists>r reg c.
           env ''request'' = Some (VRequest r)
           \<and> env ''registry'' = Some (VRegistry reg)
           \<and> env ''closer'' = Some (VCloser c)
           \<and> manager w1 = pushed_frame r reg # manager w
           \<and> (\<forall>w2 cbs. finished_callbacks (heap w2 ! r) = Attr cbs \<longrightarrow>
                 (fst (c w2) = Inr ()) = list_all returns cbs
                 \<and> trace (snd (c w2)) =
                     trace w2
                     @ (if cbs = [] then []
                        else ProcessFinishedCallbacks r # map (\<lambda>cb. Called cb r) (called cbs))
                     @ (if list_all returns cbs
                        then (case manager w2 of [] \<Rightarrow> [] | f # stack \<Rightarrow> [End f])
                        else [])
                 \<and> manager (snd (c w2)) =
                     (if list_all returns cbs then tl (manager w2) else manager w2))
           \<and> (\<forall>w2 cbs. finished_callbacks (heap w2 ! r) = Attr cbs
                   \<and> list_all returns cbs \<and> manager w2 = manager w1 \<longrightarrow>
                 trace (snd (c w2)) =
                     trace w2
                     @ (if cbs = [] then []
                        else ProcessFinishedCallbacks r # map (\<lambda>cb. Called cb r) cbs)
                     @ [End (pushed_frame r reg)]
                 \<and> manager (snd (c w2)) = manager w)"
proof -
  from prepare_bundle [OF assms] obtain r reg where
    env: "env = AppEnvironment
                   (call_root_factory (queryUtility reg IRootFactory DefaultRootFactory) r)
                   (prepare_closer r (RequestContext r)) reg r
                   (queryUtility reg IRootFactory DefaultRootFactory)"
    and m: "manager w1 = pushed_frame r reg # manager w"
    by blast
  let ?c = "prepare_closer r (RequestContext r)"
  have all_called: "called cbs = cbs" if "list_all returns cbs" for cbs
    using that by (induction cbs) simp_all
  have general: "(fst (?c w2) = Inr ()) = list_all returns cbs
        \<and> trace (snd (?c w2)) =
             trace w2
             @ (if cbs = [] then []
                else ProcessFinishedCallbacks r # map (\<lambda>cb. Called cb r) (called cbs))
             @ (if list_all returns cbs
                then (case manager w2 of [] \<Rightarrow> [] | f # stack \<Rightarrow> [End f])
                else [])
        \<and> manager (snd (?c w2)) =
             (if list_all returns cbs then tl (manager w2) else manager w2)"
    if "finished_callbacks (heap w2 ! r) = Attr cbs" for w2 cbs
    using that
    by (simp add: fst_prepare_closer manager_prepare_closer trace_prepare_closer
        callbacks_return_def)
  have nested: "trace (snd (?c w2)) =
             trace w2
             @ (if cbs = [] then []
                else ProcessFinishedCallbacks r # map (\<lambda>cb. Called cb r) cbs)
             @ [End (pushed_frame r reg)]
        \<and> manager (snd (?c w2)) = manager w"
    if "finished_callbacks (heap w2 ! r) = Attr cbs \<and> list_all returns cbs
        \<and> manager w2 = manager w1" for w2 cbs
    using that general [of w2 cbs] m by (simp add: all_called)
  have e: "env ''request'' = Some (VRequest r)" "env ''registry'' = Some (VRegistry reg)"
    "env ''closer'' = Some (VCloser ?c)"
    by (simp_all add: env AppEnvironment_lookup)
  from general have g: "\<forall>w2 cbs. finished_callbacks (heap w2 ! r) = Attr cbs \<longrightarrow>
                 (fst (?c w2) = Inr ()) = list_all returns cbs
                 \<and> trace (snd (?c w2)) =
                     trace w2
                     @ (if cbs = [] then []
                        else ProcessFinishedCallbacks r # map (\<lambda>cb. Called cb r) (called cbs))
                     @ (if list_all returns cbs
                        then (case manager w2 of [] \<Rightarrow> [] | f # stack \<Rightarrow> [End f])
                        else [])
                 \<and> manager (snd (?c w2)) =
                     (if list_all returns cbs then tl (manager w2) else manager w2)"
    by blast
  from nested have n: "\<forall>w2 cbs. finished_callbacks (heap w2 ! r) = Attr cbs
                   \<and> list_all returns cbs \<and> manager w2 = manager w1 \<longrightarrow>
                 trace (snd (?c w2)) =
                     trace w2
                     @ (if cbs = [] then []
                        else ProcessFinishedCallbacks r # map (\<lambda>cb. Called cb r) cbs)
                     @ [End (pushed_frame r reg)]
                 \<and> manager (snd (?c w2)) = manager w"
    by blast
  from e m g n show ?thesis
    by blast
qed

theorem closer_callbacks_then_pop_witness:
  "trace (snd (prepare_closer 0 (RequestContext 0)
      (add_finished_callback 0 (Callback 2)
        (snd (prepare (Some 0) (Some app_one) (world_of [own_request] None)))))) =
     [Begin (pushed_frame 0 app_one),
      ProcessFinishedCallbacks 0, Called (Callback 1) 0, Called (Callback 2) 0,
      End (pushed_frame 0 app_one)]
   \<and> manager (snd (prepare_closer 0 (RequestContext 0)
      (add_finished_callback 0 (Callback 2)
        (snd (prepare (Some 0) (Some app_one) (world_of [own_request] None)))))) = []"
proof -
  let ?w = "world_of [own_request] None"
  let ?E = "AppEnvironment (RootOf DefaultRootFactory 0) (prepare_closer 0 (RequestContext 0))
        app_one 0 DefaultRootFactory"
  define w1 where "w1 = snd (prepare (Some 0) (Some app_one) ?w)"
  define w2 where "w2 = add_finished_callback 0 (Callback 2) w1"
  have len: "0 < length (heap ?w)"
    by (simp add: world_of_def)
  have v: "valid_request ?w (Some 0)" "valid_ref ?w 0"
    by (simp_all add: valid_request_def valid_ref_def world_of_def)
  have p: "prepare (Some 0) (Some app_one) ?w = (Inr ?E, w1)"
    unfolding w1_def
    by (simp add: prepare_request_given [OF len] resolved_registry_def Let_def
        queryUtility_def call_root_factory_def app_one_def)
  have w1: "heap w1 = [own_request\<lparr>req_registry := Attr (Some app_one)\<rparr>]"
    "manager w1 = [pushed_frame 0 app_one]" "trace w1 = [Begin (pushed_frame 0 app_one)]"
    unfolding w1_def prepare_request_given [OF len]
    by (simp_all add: resolved_registry_def world_of_def Let_def own_request_def getattr_def
        app_one_def)
  have h: "finished_callbacks (heap w2 ! 0) = Attr [Callback 1, Callback 2]
           \<and> list_all returns [Callback 1, Callback 2] \<and> manager w2 = manager w1"
    "trace w2 = [Begin (pushed_frame 0 app_one)]"
    by (simp_all add: w2_def w1 add_finished_callback_def own_request_def getattr_def)
  from closer_callbacks_then_pop [OF v(1) p] obtain r reg c where
    r: "?E ''request'' = Some (VRequest r)" and reg: "?E ''registry'' = Some (VRegistry reg)"
    and c: "?E ''closer'' = Some (VCloser c)"
    and a: "\<forall>w2 cbs. finished_callbacks (heap w2 ! r) = Attr cbs
                   \<and> list_all returns cbs \<and> manager w2 = manager w1 \<longrightarrow>
                 trace (snd (c w2)) =
                     trace w2
                     @ (if cbs = [] then []
                        else ProcessFinishedCallbacks r # map (\<lambda>cb. Called cb r) cbs)
                     @ [End (pushed_frame r reg)]
                 \<and> manager (snd (c w2)) = manager ?w"
    by blast
  from r reg c have eqs: "r = 0" "reg = app_one" "c = prepare_closer 0 (RequestContext 0)"
    by (simp_all add: AppEnvironment_lookup)
  from a h(1) have "trace (snd (c w2)) =
                     trace w2
                     @ (if [Callback 1, Callback 2] = [] then []
                        else ProcessFinishedCallbacks r
                             # map (\<lambda>cb. Called cb r) [Callback 1, Callback 2])
                     @ [End (pushed_frame r reg)]
                 \<and> manager (snd (c w2)) = manager ?w"
    unfolding eqs by blast
  then show ?thesis
    unfolding eqs w2_def [symmetric] w1_def [symmetric]
    by (simp add: h(2) world_of_def)
qed

section \<open>The thread-local stack\<close>

text \<open>
  C7, as stated: each call to \<^verbatim>\<open>prepare\<close> pushes exactly one frame, and each call of a
  closer pops exactly the frame of its own bootstrap. A call to \<^verbatim>\<open>prepare\<close> without any
  registry raises and has pushed no frame. And after \<^verbatim>\<open>get_root\<close> for the new request 0
  and \<^verbatim>\<open>prepare\<close> for the new request 1, the closer of \<^verbatim>\<open>get_root\<close> pops the frame that
  \<^verbatim>\<open>prepare\<close> pushed and leaves its own.
\<close>

theorem stack_nesting_counterexample:
  "prepare None None (world_of [] None) =
     (Inl (ConfigurationError no_application_message), world_of [] None)
   \<and> manager (world_of [] None) = []
   \<and> fst (get_root router_two None (world_of [] None)) =
       Inr (RootOf (RootFactory 1) 0, get_root_closer (RequestContext 0))
   \<and> manager (snd (get_root router_two None (world_of [] None))) = [pushed_frame 0 app_two]
   \<and> manager (snd (prepare None (Some app_one)
         (snd (get_root router_two None (world_of [] None))))) =
       [pushed_frame 1 app_one, pushed_frame 0 app_two]
   \<and> manager (snd (get_root_closer (RequestContext 0)
         (snd (prepare None (Some app_one)
           (snd (get_root router_two None (world_of [] None))))))) =
       [pushed_frame 0 app_two]
   \<and> pushed_frame 1 app_one \<noteq> pushed_frame 0 app_two"
  unfolding prepare_request_None get_root_request_None
  by (simp add: resolved_registry_def Let_def queryUtility_def call_root_factory_def
      app_one_def app_two_def router_two_def get_root_closer_def RequestContext_end_def
      world_of_def pushed_frame_def)

text \<open>
  C7, amended: a call to \<^verbatim>\<open>prepare\<close> or to \<^verbatim>\<open>get_root\<close> that returns has pushed exactly
  one frame, for its request and registry, on top of the stack it found; a call to
  \<^verbatim>\<open>prepare\<close> that raises for lack of a registry has pushed none. A call of a closer that
  returns pops exactly the top frame of the stack, whichever bootstrap pushed it, and
  nothing from an empty stack; a call of the closer of \<^verbatim>\<open>prepare\<close> that raises pops nothing.
  So a closer that returns, called with the stack as its bootstrap left it, restores
  the stack that the bootstrap found. The other operations of the module leave the stack
  alone: \<^verbatim>\<open>_make_request\<close> does, and \<^verbatim>\<open>__exit__\<close> acts through the closer only.
\<close>

theorem stack_push_pop_nesting:
  assumes "valid_request w request"
  shows "(\<forall>env w1. prepare request registry w = (Inr env, w1) \<longrightarrow>
            (\<exists>r reg c. env ''request'' = Some (VRequest r)
               \<and> env ''registry'' = Some (VRegistry reg)
               \<and> env ''closer'' = Some (VCloser c)
               \<and> manager w1 = pushed_frame r reg # manager w
               \<and> (\<forall>w2. manager (snd (c w2)) =
                          (if fst (c w2) = Inr () then tl (manager w2) else manager w2))
               \<and> (\<forall>w2. AppEnvironment_exit env w2 = c w2)
               \<and> (\<forall>w2. manager w2 = manager w1 \<and> fst (c w2) = Inr () \<longrightarrow>
                          manager (snd (c w2)) = manager w)))
         \<and> (resolved_registry request registry w = None \<longrightarrow>
              manager (snd (prepare request registry w)) = manager w)
         \<and> (\<forall>root c w1. get_root app request w = (Inr (root, c), w1) \<longrightarrow>
              manager w1 =
                pushed_frame (case request of None \<Rightarrow> length (heap w) | Some r \<Rightarrow> r)
                  (app_registry app) # manager w
              \<and> (\<forall>w2. manager (snd (c w2)) = tl (manager w2))
              \<and> (\<forall>w2. manager w2 = manager w1 \<longrightarrow> manager (snd (c w2)) = manager w))
         \<and> manager (snd (make_request path registry w)) = manager w"
proof (intro conjI allI impI)
  fix env w1
  assume p: "prepare request registry w = (Inr env, w1)"
  from prepare_bundle [OF assms p] obtain r reg where
    env: "env = AppEnvironment
               (call_root_factory (queryUtility reg IRootFactory DefaultRootFactory) r)
               (prepare_closer r (RequestContext r)) reg r
               (queryUtility reg IRootFactory DefaultRootFactory)"
    and m: "manager w1 = pushed_frame r reg # manager w"
    by blast
  let ?c = "prepare_closer r (RequestContext r)"
  have e: "env ''request'' = Some (VRequest r)" "env ''registry'' = Some (VRegistry reg)"
    "env ''closer'' = Some (VCloser ?c)"
    by (simp_all add: env AppEnvironment_lookup)
  have pop: "\<forall>w2. manager (snd (?c w2)) =
                (if fst (?c w2) = Inr () then tl (manager w2) else manager w2)"
    by (simp add: manager_prepare_closer fst_prepare_closer)
  have ex: "\<forall>w2. AppEnvironment_exit env w2 = ?c w2"
    by (simp add: env AppEnvironment_exit_bundle)
  from pop m have restore: "\<forall>w2. manager w2 = manager w1 \<and> fst (?c w2) = Inr () \<longrightarrow>
                          manager (snd (?c w2)) = manager w"
    by simp
  from e m pop ex restore
  show "\<exists>r reg c. env ''request'' = Some (VRequest r)
               \<and> env ''registry'' = Some (VRegistry reg)
               \<and> env ''closer'' = Some (VCloser c)
               \<and> manager w1 = pushed_frame r reg # manager w
               \<and> (\<forall>w2. manager (snd (c w2)) =
                          (if fst (c w2) = Inr () then tl (manager w2) else manager w2))
               \<and> (\<forall>w2. AppEnvironment_exit env w2 = c w2)
               \<and> (\<forall>w2. manager w2 = manager w1 \<and> fst (c w2) = Inr () \<longrightarrow>
                          manager (snd (c w2)) = manager w)"
    by blast
next
  assume "resolved_registry request registry w = None"
  then show "manager (snd (prepare request registry w)) = manager w"
    by (cases request)
       (auto simp: prepare_def resolved_registry_def getattr_def request_attr_def
         split: option.splits attr.splits)
next
  fix root c w1
  assume g: "get_root app request w = (Inr (root, c), w1)"
  from get_root_returns [OF assms, of app] g
  have c: "c = get_root_closer
                 (RequestContext (case request of None \<Rightarrow> length (heap w) | Some r \<Rightarrow> r))"
    and m: "manager w1 =
             pushed_frame (case request of None \<Rightarrow> length (heap w) | Some r \<Rightarrow> r)
               (app_registry app) # manager w"
    by auto
  show "manager w1 =
          pushed_frame (case request of None \<Rightarrow> length (heap w) | Some r \<Rightarrow> r)
            (app_registry app) # manager w"
    by (rule m)
  show "manager (snd (c w2)) = tl (manager w2)" for w2
    by (simp add: c manager_get_root_closer)
  show "manager (snd (c w2)) = manager w" if "manager w2 = manager w1" for w2
    using that m by (simp add: c manager_get_root_closer)
next
  show "manager (snd (make_request path registry w)) = manager w"
    by (rule manager_make_request)
qed

theorem stack_push_pop_nesting_witness:
  "manager (snd (prepare (Some 0) (Some app_one) (world_of [own_request] None)))
       = [pushed_frame 0 app_one]
   \<and> fst (prepare_closer 0 (RequestContext 0)
         (snd (prepare (Some 0) (Some app_one) (world_of [own_request] None)))) = Inr ()
   \<and> manager (snd (prepare_closer 0 (RequestContext 0)
         (snd (prepare (Some 0) (Some app_one) (world_of [own_request] None))))) = []
   \<and> resolved_registry None None (world_of [] None) = None
   \<and> manager (snd (prepare None None (world_of [] None))) = []
   \<and> manager (snd (get_root router_two (Some 0) (world_of [own_request] None)))
       = [pushed_frame 0 app_two]
   \<and> manager (snd (get_root_closer (RequestContext 0)
         (snd (get_root router_two (Some 0) (world_of [own_request] None))))) = []"
proof -
  let ?w = "world_of [own_request] None"
  let ?E = "AppEnvironment (RootOf DefaultRootFactory 0) (prepare_closer 0 (RequestContext 0))
        app_one 0 DefaultRootFactory"
  have v: "valid_request ?w (Some 0)" "valid_ref ?w 0"
    by (simp_all add: valid_request_def valid_ref_def world_of_def)
  have len: "0 < length (heap ?w)"
    by (simp add: world_of_def)
  define w1 where "w1 = snd (prepare (Some 0) (Some app_one) ?w)"
  define w1' where "w1' = snd (get_root router_two (Some 0) ?w)"
  have p: "prepare (Some 0) (Some app_one) ?w = (Inr ?E, w1)"
    unfolding w1_def
    by (simp add: prepare_request_given [OF len] resolved_registry_def Let_def
        queryUtility_def call_root_factory_def app_one_def)
  have g: "get_root router_two (Some 0) ?w =
     (Inr (call_root_factory (app_root_factory router_two) 0,
           get_root_closer (RequestContext 0)), w1')"
    unfolding w1'_def
    by (simp add: get_root_request_given [OF len])
  have e: "manager ?w = []" "app_registry router_two = app_two"
    by (simp_all add: world_of_def router_two_def)
  from prepare_keeps_callbacks [OF v(2) p] have ret: "fst (prepare_closer 0 (RequestContext 0) w1) = Inr ()"
    by (simp add: fst_prepare_closer callbacks_return_def world_of_def own_request_def)
  note inst = stack_push_pop_nesting [OF v(1), of "Some app_one" router_two "''/''"]
  from inst p obtain r reg c where
    "?E ''request'' = Some (VRequest r)" "?E ''registry'' = Some (VRegistry reg)"
    "?E ''closer'' = Some (VCloser c)"
    and m1: "manager w1 = pushed_frame r reg # manager ?w"
    and restore: "\<forall>w2. manager w2 = manager w1 \<and> fst (c w2) = Inr () \<longrightarrow>
                          manager (snd (c w2)) = manager ?w"
    by blast
  then have eqs: "r = 0" "reg = app_one" "c = prepare_closer 0 (RequestContext 0)"
    by (simp_all add: AppEnvironment_lookup)
  from restore ret have m2: "manager (snd (prepare_closer 0 (RequestContext 0) w1)) = manager ?w"
    unfolding eqs by blast
  from inst g have m3: "manager w1' = pushed_frame 0 (app_registry router_two) # manager ?w"
    and m4: "manager (snd (get_root_closer (RequestContext 0) w1')) = manager ?w"
    by auto
  have n: "valid_request (world_of [] None) None"
    "resolved_registry None None (world_of [] None) = None"
    by (simp_all add: valid_request_def resolved_registry_def world_of_def)
  from stack_push_pop_nesting [OF n(1), of None router_two "''/''"] n(2)
  have m5: "manager (snd (prepare None None (world_of [] None))) = manager (world_of [] None)"
    by blast
  have e': "manager (world_of [] None) = []"
    by (simp add: world_of_def)
  from m1 m2 m3 m4 m5 ret n(2) show ?thesis
    unfolding eqs e e' w1_def [symmetric] w1'_def [symmetric] by simp
qed

end
